theory Spec2Isabelle
  imports Main
begin

section \<open>The TensorFlow Reshape extractor of the Model Optimizer\<close>

text \<open>
  The source file \<^verbatim>\<open>mo/front/tf/extractors/reshape.py\<close> holds one function:
  \<^verbatim>\<open>
  def tf_reshape_ext(pb):
      return {
          'type': 'Reshape',
          'infer': lambda node: single_output_infer(node, tf_reshape_shape_infer,
              lambda node: np.reshape(node.in_node().value, node.out_node().shape)
                           if node.in_node().value is not None else None)
      }
  \<close>
  The graph node class, \<^verbatim>\<open>single_output_infer\<close>, \<^verbatim>\<open>tf_reshape_shape_infer\<close> and
  numpy's \<^verbatim>\<open>reshape\<close> are imported by it and live elsewhere.
\<close>

subsection \<open>Data model\<close>

text \<open>Every raise of the Python code is a value of this type, returned as \<open>Inl\<close>.\<close>

datatype error = AssertionError | KeyError | ShapeError | ValueError

text \<open>
  A numpy array: its shape and its elements in row-major (C) order, the order in which
  \<^verbatim>\<open>flatten\<close> lists them. Dimensions are Python integers, taken unbounded.
\<close>

record 'a ndarray =
  arr_shape :: "int list"
  arr_data :: "'a list"

text \<open>A data node of the graph: a shape and an optional concrete value (\<open>None\<close> is Python's None).\<close>

record 'a tensor =
  shape :: "int list"
  val :: "'a ndarray option"

text \<open>
  An operation node: its ordered input and output data nodes, and the target shape argument
  that the reshape operation carries.
\<close>

record 'a node =
  in_nodes :: "'a tensor list"
  out_nodes :: "'a tensor list"
  target_shape :: "int list"

text \<open>The values of the attribute mapping that an extractor returns.\<close>

datatype 'a attr = Str string | Callable "'a node \<Rightarrow> error + 'a node"

subsection \<open>Collaborators that the source imports\<close>

text \<open>
  Modelled from the spec: the node accessors \<^verbatim>\<open>node.in_node()\<close> and \<^verbatim>\<open>node.out_node()\<close> of the
  graph node class, which is not in the source file. They give the first input and the first
  output data node and raise when there is none.
\<close>

definition in_node :: "'a node \<Rightarrow> error + 'a tensor" where
  "in_node n = (case in_nodes n of [] \<Rightarrow> Inl KeyError | t # _ \<Rightarrow> Inr t)"

definition out_node :: "'a node \<Rightarrow> error + 'a tensor" where
  "out_node n = (case out_nodes n of [] \<Rightarrow> Inl KeyError | t # _ \<Rightarrow> Inr t)"

text \<open>
  Modelled from the spec: the array reinterpretation primitive \<^verbatim>\<open>np.reshape\<close>, a library
  function that is not in the source file: given a concrete array and a target shape it
  returns an array with that shape and the same flattened element sequence, failing if the
  element counts mismatch. As in numpy, one negative entry of the target shape stands for
  an unknown dimension that is inferred from the element count; a second one is an error.
\<close>

definition np_reshape :: "'a ndarray \<Rightarrow> int list \<Rightarrow> error + 'a ndarray" where
  "np_reshape a newshape =
     (let s_original = int (length (arr_data a));
          s_known = prod_list (filter (\<lambda>d. 0 \<le> d) newshape);
          unknown = length (filter (\<lambda>d. d < 0) newshape)
      in if 1 < unknown then Inl ValueError
         else if unknown = 1 then
           (if s_known = 0 \<or> s_original mod s_known \<noteq> 0 then Inl ValueError
            else Inr \<lparr>arr_shape = map (\<lambda>d. if d < 0 then s_original div s_known else d) newshape,
                      arr_data = arr_data a\<rparr>)
         else if s_original \<noteq> s_known then Inl ValueError
         else Inr \<lparr>arr_shape = newshape, arr_data = arr_data a\<rparr>)"

text \<open>
  What the flat representation means: the array as nested lists (numpy's \<^verbatim>\<open>tolist\<close>), where
  the entry at position \<open>i\<close> of the first axis is the \<open>i\<close>-th block of the element list, and
  \<^verbatim>\<open>flatten\<close>, the elements of the nested lists from left to right.
\<close>

datatype 'a nested = Elem 'a | Arr "'a nested list"

fun tolist_aux :: "nat list \<Rightarrow> 'a list \<Rightarrow> 'a nested" where
  "tolist_aux [] xs = (case xs of [] \<Rightarrow> Arr [] | x # _ \<Rightarrow> Elem x)"
| "tolist_aux (d # ds) xs =
     Arr (map (\<lambda>i. tolist_aux ds (take (prod_list ds) (drop (i * prod_list ds) xs))) [0..<d])"

fun ravel :: "'a nested \<Rightarrow> 'a list" where
  "ravel (Elem x) = [x]"
| "ravel (Arr ys) = concat (map ravel ys)"

definition tolist :: "'a ndarray \<Rightarrow> 'a nested" where
  "tolist a = tolist_aux (map nat (arr_shape a)) (arr_data a)"

definition flatten :: "'a ndarray \<Rightarrow> 'a list" where
  "flatten a = ravel (tolist a)"

text \<open>
  The invariant of every numpy array: no negative dimension, and as many elements as the
  product of the dimensions.
\<close>

definition wf_ndarray :: "'a ndarray \<Rightarrow> bool" where
  "wf_ndarray a \<longleftrightarrow>
     list_all (\<lambda>d. 0 \<le> d) (arr_shape a) \<and> prod_list (arr_shape a) = int (length (arr_data a))"

text \<open>
  Modelled from the spec: the shape resolution of the reshape shape-inference helper
  \<^verbatim>\<open>tf_reshape_shape_infer\<close>, which is not in the source file. The spec gives its contract: an entry \<open>0\<close> of the target
  shape copies the corresponding input dimension, an entry \<open>-1\<close> is inferred so that the total
  element count matches the input, at most one \<open>-1\<close> is permitted, the inferred dimension
  must divide evenly, and the result is a sequence of non-negative integers. A target shape
  without \<open>-1\<close> is not compared with the input's element count here: that mismatch is
  found by the reinterpretation of the value.

  \<open>resolve_dims m ishape target\<close> replaces every \<open>0\<close> by the input dimension at the same
  position (\<open>None\<close> when the input has no such dimension) and every \<open>-1\<close> by \<open>m\<close>.
\<close>

fun resolve_dims :: "int \<Rightarrow> int list \<Rightarrow> int list \<Rightarrow> int list option" where
  "resolve_dims m ishape [] = Some []"
| "resolve_dims m ishape (d # ds) =
     (if d = 0 then
        (case ishape of
           [] \<Rightarrow> None
         | x # xs \<Rightarrow> map_option ((#) x) (resolve_dims m xs ds))
      else map_option ((#) (if d = - 1 then m else d)) (resolve_dims m (tl ishape) ds))"

definition check_resolved :: "int list \<Rightarrow> error + int list" where
  "check_resolved r = (if list_all (\<lambda>d. 0 \<le> d) r then Inr r else Inl ShapeError)"

definition resolve_shape :: "int list \<Rightarrow> int list \<Rightarrow> error + int list" where
  "resolve_shape ishape target =
     (if 1 < count_list target (- 1) then Inl ShapeError
      else case resolve_dims 1 ishape target of
        None \<Rightarrow> Inl ShapeError
      | Some ks \<Rightarrow>
          if count_list target (- 1) = 0 then check_resolved ks
          else
            (let known = prod_list ks; total = prod_list ishape
             in if known = 0 \<or> total mod known \<noteq> 0 then Inl ShapeError
                else case resolve_dims (total div known) ishape target of
                  None \<Rightarrow> Inl ShapeError
                | Some r \<Rightarrow> check_resolved r))"

text \<open>
  Modelled from the spec: \<^verbatim>\<open>tf_reshape_shape_infer\<close> itself, which is not in the source file: it
  resolves the target shape argument of the node against the shape of its input.
\<close>

definition tf_reshape_shape_infer :: "'a node \<Rightarrow> error + int list" where
  "tf_reshape_shape_infer n =
     (case in_node n of
        Inl e \<Rightarrow> Inl e
      | Inr t \<Rightarrow> resolve_shape (shape t) (target_shape n))"

text \<open>
  The dimensions of a target shape other than \<open>-1\<close>, each \<open>0\<close> replaced by the input
  dimension at its position: the "other (known) dimensions" of the spec, read off the
  target shape directly.
\<close>

definition other_dims :: "int list \<Rightarrow> int list \<Rightarrow> int list" where
  "other_dims ishape target =
     map (\<lambda>(i, d). if d = 0 then ishape ! i else d)
       (filter (\<lambda>(i, d). d \<noteq> - 1) (enumerate 0 target))"

text \<open>
  Modelled from the spec: the single-output inference helper \<^verbatim>\<open>single_output_infer\<close>,
  which is not in the source file. It asserts the single-input/single-output precondition,
  invokes the shape function, invokes the value function and writes both results onto the
  node's output. The value is computed "as the newly computed output shape", and the value
  function of the source reads that shape from the output slot, so the shape is on the
  output when the value function runs. An error of either function propagates.
\<close>

definition single_output_infer ::
  "'a node \<Rightarrow> ('a node \<Rightarrow> error + int list) \<Rightarrow> ('a node \<Rightarrow> error + 'a ndarray option)
     \<Rightarrow> error + 'a node" where
  "single_output_infer n shape_infer value_infer =
     (case (in_nodes n, out_nodes n) of
        ([i], [ot]) \<Rightarrow>
          (case shape_infer n of
             Inl e \<Rightarrow> Inl e
           | Inr s \<Rightarrow>
               (let n1 = n\<lparr>out_nodes := [ot\<lparr>shape := s\<rparr>]\<rparr>
                in case value_infer n1 of
                     Inl e \<Rightarrow> Inl e
                   | Inr v \<Rightarrow> Inr (n1\<lparr>out_nodes := [ot\<lparr>shape := s, val := v\<rparr>]\<rparr>)))
      | _ \<Rightarrow> Inl AssertionError)"

subsection \<open>The extractor\<close>

text \<open>
  The inner lambda of the source, the value-inference function:
  \<^verbatim>\<open>np.reshape(node.in_node().value, node.out_node().shape)
      if node.in_node().value is not None else None\<close>.
  The condition is evaluated first, then the two arguments from left to right.
\<close>

definition tf_reshape_value_infer :: "'a node \<Rightarrow> error + 'a ndarray option" where
  "tf_reshape_value_infer n =
     (case in_node n of
        Inl e \<Rightarrow> Inl e
      | Inr t \<Rightarrow>
          (case val t of
             None \<Rightarrow> Inr None
           | Some v \<Rightarrow>
               (case out_node n of
                  Inl e \<Rightarrow> Inl e
                | Inr ot \<Rightarrow>
                    (case np_reshape v (shape ot) of
                       Inl e \<Rightarrow> Inl e
                     | Inr r \<Rightarrow> Inr (Some r)))))"

text \<open>The outer lambda of the source, stored under the key \<^verbatim>\<open>'infer'\<close>.\<close>

definition tf_reshape_infer :: "'a node \<Rightarrow> error + 'a node" where
  "tf_reshape_infer n = single_output_infer n tf_reshape_shape_infer tf_reshape_value_infer"

text \<open>The extractor itself: a dictionary literal with two keys; \<open>pb\<close> is not used.\<close>

definition tf_reshape_ext :: "'pb \<Rightarrow> (string \<rightharpoonup> 'a attr)" where
  "tf_reshape_ext pb = [''type'' \<mapsto> Str ''Reshape'', ''infer'' \<mapsto> Callable tf_reshape_infer]"

section \<open>Properties of the collaborators and of the two lambdas\<close>

subsection \<open>Arrays and their nested view\<close>

lemma concat_chunks:
  "concat (map (\<lambda>i. take p (drop (i * p) xs)) [0..<d]) = take (d * p) xs"
proof (induction d)
  case 0
  then show ?case by simp
next
  case (Suc d)
  have "take (d * p + p) xs = take (d * p) xs @ take p (drop (d * p) xs)"
    by (rule take_add)
  with Suc show ?case by (simp add: add.commute)
qed

lemma ravel_tolist_aux: "length xs = prod_list ds \<Longrightarrow> ravel (tolist_aux ds xs) = xs"
proof (induction ds arbitrary: xs)
  case Nil
  then show ?case by (cases xs) auto
next
  case (Cons d ds)
  let ?p = "prod_list ds"
  have len: "length xs = d * ?p" using Cons.prems by simp
  have chunk: "ravel (tolist_aux ds (take ?p (drop (i * ?p) xs))) = take ?p (drop (i * ?p) xs)"
    if "i < d" for i
  proof (rule Cons.IH)
    from that have "Suc i * ?p \<le> d * ?p" by (intro mult_le_mono1) simp
    then show "length (take ?p (drop (i * ?p) xs)) = ?p" using len by simp
  qed
  have "ravel (tolist_aux (d # ds) xs)
          = concat (map (\<lambda>i. ravel (tolist_aux ds (take ?p (drop (i * ?p) xs)))) [0..<d])"
    by (simp add: comp_def)
  also have "\<dots> = concat (map (\<lambda>i. take ?p (drop (i * ?p) xs)) [0..<d])"
    using chunk by (auto intro!: arg_cong [where f = concat] map_cong)
  also have "\<dots> = take (d * ?p) xs" by (rule concat_chunks)
  also have "\<dots> = xs" using len by simp
  finally show ?case .
qed

lemma prod_list_nat:
  "list_all (\<lambda>d. (0::int) \<le> d) s \<Longrightarrow> prod_list (map nat s) = nat (prod_list s)"
  by (induction s) (auto simp: nat_mult_distrib)

lemma flatten_wf: "wf_ndarray a \<Longrightarrow> flatten a = arr_data a"
  by (simp add: flatten_def tolist_def wf_ndarray_def ravel_tolist_aux prod_list_nat)

lemma filter_nonneg_all: "list_all (\<lambda>d. (0::int) \<le> d) s \<Longrightarrow> filter (\<lambda>d. 0 \<le> d) s = s"
  by (induction s) auto

lemma filter_neg_none: "list_all (\<lambda>d. (0::int) \<le> d) s \<Longrightarrow> filter (\<lambda>d. d < 0) s = []"
  by (induction s) auto

lemma np_reshape_nonneg:
  "list_all (\<lambda>d. 0 \<le> d) s \<Longrightarrow>
     np_reshape a s =
       (if prod_list s = int (length (arr_data a))
        then Inr \<lparr>arr_shape = s, arr_data = arr_data a\<rparr> else Inl ValueError)"
  by (auto simp: np_reshape_def Let_def filter_nonneg_all filter_neg_none)

subsection \<open>Shape resolution\<close>

lemma check_resolved_Inr: "check_resolved r = Inr s \<Longrightarrow> s = r \<and> list_all (\<lambda>d. 0 \<le> d) s"
  by (auto simp: check_resolved_def split: if_splits)

lemma resolve_shape_nonneg: "resolve_shape ishape target = Inr s \<Longrightarrow> list_all (\<lambda>d. 0 \<le> d) s"
  by (auto simp: resolve_shape_def Let_def split: if_splits option.splits dest: check_resolved_Inr)

lemma tf_reshape_shape_infer_single:
  "in_nodes n = [t] \<Longrightarrow> tf_reshape_shape_infer n = resolve_shape (shape t) (target_shape n)"
  by (simp add: tf_reshape_shape_infer_def in_node_def)

lemma tf_reshape_shape_infer_nonneg:
  "tf_reshape_shape_infer n = Inr s \<Longrightarrow> list_all (\<lambda>d. 0 \<le> d) s"
  by (auto simp: tf_reshape_shape_infer_def split: sum.splits dest: resolve_shape_nonneg)

lemma resolve_dims_positive:
  "list_all (\<lambda>d. 0 < d) target \<Longrightarrow> resolve_dims m ishape target = Some target"
  by (induction target arbitrary: ishape) auto

lemma count_list_positive: "list_all (\<lambda>d. (0::int) < d) target \<Longrightarrow> count_list target (- 1) = 0"
  by (induction target) auto

lemma resolve_shape_fully_specified:
  assumes "list_all (\<lambda>d. 0 < d) target"
  shows "resolve_shape ishape target = Inr target"
proof -
  from assms have "list_all (\<lambda>d. 0 \<le> d) target"
    by (induction target) auto
  with assms show ?thesis
    by (simp add: resolve_shape_def resolve_dims_positive count_list_positive check_resolved_def)
qed

lemma resolve_dims_known_product:
  "resolve_dims 1 (drop k ishape) target = Some ks \<Longrightarrow>
     prod_list ks =
       prod_list (map (\<lambda>(i, d). if d = 0 then ishape ! i else d)
                   (filter (\<lambda>(i, d). d \<noteq> - 1) (enumerate k target)))"
proof (induction target arbitrary: k ks)
  case Nil
  then show ?case by simp
next
  case (Cons d ds)
  show ?case
  proof (cases "d = 0")
    case True
    with Cons.prems obtain x xs r where dr: "drop k ishape = x # xs"
      and r: "resolve_dims 1 xs ds = Some r" and ks: "ks = x # r"
      by (auto split: list.splits)
    from dr have x: "x = ishape ! k" and xs: "xs = drop (Suc k) ishape"
      by (metis Cons_nth_drop_Suc drop_all linorder_not_le list.distinct(1) list.inject)+
    from Cons.IH [of "Suc k" r] r xs show ?thesis
      using True ks x by simp
  next
    case False
    with Cons.prems obtain r where
      r: "resolve_dims 1 (tl (drop k ishape)) ds = Some r"
      and ks: "ks = (if d = - 1 then 1 else d) # r"
      by auto
    have "tl (drop k ishape) = drop (Suc k) ishape"
      by (simp add: drop_Suc tl_drop)
    with Cons.IH [of "Suc k" r] r show ?thesis
      using False ks by simp
  qed
qed

lemma resolve_dims_other_dims:
  "resolve_dims 1 ishape target = Some ks \<Longrightarrow> prod_list ks = prod_list (other_dims ishape target)"
  using resolve_dims_known_product [of 0 ishape target ks] by (simp add: other_dims_def)

lemma resolve_shape_ambiguous:
  "1 < count_list target (- 1) \<Longrightarrow> resolve_shape ishape target = Inl ShapeError"
  by (simp add: resolve_shape_def)

lemma resolve_shape_indivisible:
  assumes "count_list target (- 1) = 1"
    and "\<not> prod_list (other_dims ishape target) dvd prod_list ishape"
  shows "resolve_shape ishape target = Inl ShapeError"
proof (cases "resolve_dims 1 ishape target")
  case None
  with assms(1) show ?thesis by (simp add: resolve_shape_def)
next
  case (Some ks)
  then have "prod_list ks = prod_list (other_dims ishape target)"
    by (rule resolve_dims_other_dims)
  with assms(2) have "prod_list ks = 0 \<or> prod_list ishape mod prod_list ks \<noteq> 0"
    by (auto simp: dvd_eq_mod_eq_0)
  with Some assms(1) show ?thesis by (simp add: resolve_shape_def Let_def)
qed

subsection \<open>The two lambdas on a node with one input and one output\<close>

lemma value_infer_unknown:
  "in_nodes n = t # ts \<Longrightarrow> val t = None \<Longrightarrow> tf_reshape_value_infer n = Inr None"
  by (simp add: tf_reshape_value_infer_def in_node_def)

lemma value_infer_known:
  "in_nodes n = t # ts \<Longrightarrow> out_nodes n = ot # ots \<Longrightarrow> val t = Some a \<Longrightarrow>
     tf_reshape_value_infer n =
       (case np_reshape a (shape ot) of Inl e \<Rightarrow> Inl e | Inr r \<Rightarrow> Inr (Some r))"
  by (simp add: tf_reshape_value_infer_def in_node_def out_node_def)

lemma value_infer_nonneg:
  "in_nodes n = t # ts \<Longrightarrow> out_nodes n = ot # ots \<Longrightarrow> val t = Some a \<Longrightarrow>
   list_all (\<lambda>d. 0 \<le> d) (shape ot) \<Longrightarrow>
     tf_reshape_value_infer n =
       (if prod_list (shape ot) = int (length (arr_data a))
        then Inr (Some \<lparr>arr_shape = shape ot, arr_data = arr_data a\<rparr>) else Inl ValueError)"
  by (simp add: value_infer_known np_reshape_nonneg)

lemma infer_single:
  "in_nodes n = [t] \<Longrightarrow> out_nodes n = [ot] \<Longrightarrow>
     tf_reshape_infer n =
       (case tf_reshape_shape_infer n of
          Inl e \<Rightarrow> Inl e
        | Inr s \<Rightarrow>
            (case tf_reshape_value_infer (n\<lparr>out_nodes := [ot\<lparr>shape := s\<rparr>]\<rparr>) of
               Inl e \<Rightarrow> Inl e
             | Inr v \<Rightarrow> Inr (n\<lparr>out_nodes := [ot\<lparr>shape := s, val := v\<rparr>]\<rparr>)))"
  by (simp add: tf_reshape_infer_def single_output_infer_def Let_def split: sum.splits)

lemma infer_unknown:
  "in_nodes n = [t] \<Longrightarrow> out_nodes n = [ot] \<Longrightarrow> val t = None \<Longrightarrow>
     tf_reshape_infer n =
       (case tf_reshape_shape_infer n of
          Inl e \<Rightarrow> Inl e
        | Inr s \<Rightarrow> Inr (n\<lparr>out_nodes := [ot\<lparr>shape := s, val := None\<rparr>]\<rparr>))"
  by (simp add: infer_single value_infer_unknown split: sum.splits)

lemma infer_known:
  assumes "in_nodes n = [t]" and "out_nodes n = [ot]" and "val t = Some a"
    and "tf_reshape_shape_infer n = Inr s"
  shows "tf_reshape_infer n =
           (if prod_list s = int (length (arr_data a))
            then Inr (n\<lparr>out_nodes :=
                        [ot\<lparr>shape := s, val := Some \<lparr>arr_shape = s, arr_data = arr_data a\<rparr>\<rparr>]\<rparr>)
            else Inl ValueError)"
proof -
  from assms(4) have "list_all (\<lambda>d. 0 \<le> d) s"
    by (rule tf_reshape_shape_infer_nonneg)
  then have "tf_reshape_value_infer (n\<lparr>out_nodes := [ot\<lparr>shape := s\<rparr>]\<rparr>) =
      (if prod_list s = int (length (arr_data a))
       then Inr (Some \<lparr>arr_shape = s, arr_data = arr_data a\<rparr>) else Inl ValueError)"
    using assms(1,3) by (simp add: value_infer_nonneg [where t = t and ot = "ot\<lparr>shape := s\<rparr>"])
  with assms show ?thesis by (simp add: infer_single)
qed

section \<open>The claims\<close>

text \<open>
  Claim C1: for every raw operation descriptor, the extractor returns a mapping with exactly
  two entries: \<^verbatim>\<open>'type'\<close> is the string "Reshape" and \<^verbatim>\<open>'infer'\<close> is a callable taking a node
  (the outer lambda of the source).
\<close>

theorem tf_reshape_ext_entries:
  "dom (tf_reshape_ext pb) = {''type'', ''infer''}
   \<and> tf_reshape_ext pb ''type'' = Some (Str ''Reshape'')
   \<and> tf_reshape_ext pb ''infer'' = Some (Callable tf_reshape_infer)"
  by (auto simp: tf_reshape_ext_def)

theorem tf_reshape_ext_entries_witness:
  "dom (tf_reshape_ext ''pb'' :: string \<rightharpoonup> int attr) = {''type'', ''infer''}
   \<and> (tf_reshape_ext ''pb'' :: string \<rightharpoonup> int attr) ''type'' = Some (Str ''Reshape'')
   \<and> (tf_reshape_ext ''pb'' :: string \<rightharpoonup> int attr) ''infer'' = Some (Callable tf_reshape_infer)"
  by (rule tf_reshape_ext_entries)

text \<open>
  Claim C2: when the single input holds a known array and the output slot holds a resolved
  shape (no negative entry) with the same total element count as that array, the value
  function returns a known array of exactly that shape, and flattening it gives the same
  element sequence as flattening the input: \<open>flatten (reshape a s) = flatten a\<close>.
\<close>

theorem tf_reshape_value_preserves_flatten:
  assumes "in_nodes n = [t]" and "out_nodes n = [ot]"
    and "val t = Some a" and "wf_ndarray a"
    and "list_all (\<lambda>d. 0 \<le> d) (shape ot)"
    and "prod_list (shape ot) = int (length (arr_data a))"
  shows "\<exists>r. tf_reshape_value_infer n = Inr (Some r) \<and> np_reshape a (shape ot) = Inr r
           \<and> wf_ndarray r \<and> arr_shape r = shape ot \<and> flatten r = flatten a"
proof -
  let ?r = "\<lparr>arr_shape = shape ot, arr_data = arr_data a\<rparr>"
  have "np_reshape a (shape ot) = Inr ?r"
    using assms(5,6) by (simp add: np_reshape_nonneg)
  moreover have "tf_reshape_value_infer n = Inr (Some ?r)"
    using assms by (simp add: value_infer_nonneg)
  moreover have wf: "wf_ndarray ?r"
    using assms(5,6) by (simp add: wf_ndarray_def)
  moreover have "flatten ?r = flatten a"
    using wf assms(4) by (simp add: flatten_wf)
  ultimately show ?thesis by simp
qed

theorem tf_reshape_value_preserves_flatten_witness:
  "tf_reshape_value_infer
     \<lparr>in_nodes = [\<lparr>shape = [2, 3], val = Some \<lparr>arr_shape = [2, 3], arr_data = [10, 20, 30, 40, 50, 60 :: int]\<rparr>\<rparr>],
      out_nodes = [\<lparr>shape = [3, 2], val = None\<rparr>], target_shape = [3, 2]\<rparr>
     = Inr (Some \<lparr>arr_shape = [3, 2], arr_data = [10, 20, 30, 40, 50, 60]\<rparr>)
   \<and> flatten \<lparr>arr_shape = [3, 2], arr_data = [10, 20, 30, 40, 50, 60 :: int]\<rparr>
     = flatten \<lparr>arr_shape = [2, 3], arr_data = [10, 20, 30, 40, 50, 60 :: int]\<rparr>"
  using tf_reshape_value_preserves_flatten
    [of "\<lparr>in_nodes = [\<lparr>shape = [2, 3], val = Some \<lparr>arr_shape = [2, 3], arr_data = [10, 20, 30, 40, 50, 60 :: int]\<rparr>\<rparr>],
          out_nodes = [\<lparr>shape = [3, 2], val = None\<rparr>], target_shape = [3, 2]\<rparr>"
        "\<lparr>shape = [2, 3], val = Some \<lparr>arr_shape = [2, 3], arr_data = [10, 20, 30, 40, 50, 60 :: int]\<rparr>\<rparr>"
        "\<lparr>shape = [3, 2], val = None\<rparr>"
        "\<lparr>arr_shape = [2, 3], arr_data = [10, 20, 30, 40, 50, 60 :: int]\<rparr>"]
  by (auto simp: wf_ndarray_def np_reshape_def)

text \<open>
  Claim C3: when the single input's value is unknown, the value function returns the unknown
  marker \<open>None\<close>, and the infer callable writes the resolved output shape and records no
  output value; it fails only if shape resolution fails. For the target shape \<open>[6, 4]\<close> the
  output shape is \<open>[6, 4]\<close> and the output value is unknown, whatever the input shape.
\<close>

theorem tf_reshape_infer_unknown_value:
  assumes "in_nodes n = [t]" and "out_nodes n = [ot]" and "val t = None"
  shows "tf_reshape_value_infer n = Inr None
       \<and> tf_reshape_infer n =
           (case tf_reshape_shape_infer n of
              Inl e \<Rightarrow> Inl e
            | Inr s \<Rightarrow> Inr (n\<lparr>out_nodes := [ot\<lparr>shape := s, val := None\<rparr>]\<rparr>))
       \<and> (target_shape n = [6, 4] \<longrightarrow>
            tf_reshape_infer n = Inr (n\<lparr>out_nodes := [ot\<lparr>shape := [6, 4], val := None\<rparr>]\<rparr>))"
proof -
  have "tf_reshape_shape_infer n = Inr [6, 4]" if "target_shape n = [6, 4]"
    using that assms(1) by (simp add: tf_reshape_shape_infer_single resolve_shape_fully_specified)
  then show ?thesis
    using assms by (simp add: value_infer_unknown infer_unknown)
qed

theorem tf_reshape_infer_unknown_value_witness:
  "tf_reshape_value_infer
     \<lparr>in_nodes = [\<lparr>shape = [2, 3, 4], val = (None :: int ndarray option)\<rparr>],
      out_nodes = [\<lparr>shape = [], val = None\<rparr>], target_shape = [6, 4]\<rparr> = Inr None
   \<and> tf_reshape_infer
     \<lparr>in_nodes = [\<lparr>shape = [2, 3, 4], val = (None :: int ndarray option)\<rparr>],
      out_nodes = [\<lparr>shape = [], val = None\<rparr>], target_shape = [6, 4]\<rparr>
     = Inr \<lparr>in_nodes = [\<lparr>shape = [2, 3, 4], val = None\<rparr>],
            out_nodes = [\<lparr>shape = [6, 4], val = None\<rparr>], target_shape = [6, 4]\<rparr>"
  using tf_reshape_infer_unknown_value
    [of "\<lparr>in_nodes = [\<lparr>shape = [2, 3, 4], val = (None :: int ndarray option)\<rparr>],
          out_nodes = [\<lparr>shape = [], val = None\<rparr>], target_shape = [6, 4]\<rparr>"
        "\<lparr>shape = [2, 3, 4], val = None\<rparr>" "\<lparr>shape = [], val = None\<rparr>"]
  by (simp add: tf_reshape_shape_infer_single resolve_shape_fully_specified)

text \<open>
  Claim C4: the extractor is a total function of the descriptor that returns the same
  mapping for every descriptor of every type, so it inspects and validates nothing and has
  no error result; it takes and returns no graph state, and the node is only touched when
  the callable stored under \<^verbatim>\<open>'infer'\<close> is applied to it later.
\<close>

theorem tf_reshape_ext_ignores_descriptor:
  "(tf_reshape_ext (pb :: 'p) :: string \<rightharpoonup> 'a attr) = tf_reshape_ext (pb' :: 'q)
   \<and> (tf_reshape_ext pb :: string \<rightharpoonup> 'a attr) ''infer''
       = Some (Callable (\<lambda>n. single_output_infer n tf_reshape_shape_infer tf_reshape_value_infer))"
proof -
  have "(tf_reshape_infer :: 'a node \<Rightarrow> error + 'a node)
          = (\<lambda>n. single_output_infer n tf_reshape_shape_infer tf_reshape_value_infer)"
    by (simp add: fun_eq_iff tf_reshape_infer_def)
  then show ?thesis by (simp add: tf_reshape_ext_def)
qed

theorem tf_reshape_ext_ignores_descriptor_witness:
  "(tf_reshape_ext ''Reshape node'' :: string \<rightharpoonup> int attr) = tf_reshape_ext (- 7 :: int)"
  using tf_reshape_ext_ignores_descriptor [of "''Reshape node''" "- 7 :: int"]
  by (rule conjunct1)

text \<open>
  Claim C5: shape resolution fails, and the failure is the result of the infer callable, when
  the target shape argument has more than one \<open>-1\<close>, and when it has exactly one \<open>-1\<close> and the
  input's total element count is not evenly divisible by the product of the other dimensions.
\<close>

theorem tf_reshape_infer_shape_resolution_fails:
  assumes "in_nodes n = [t]" and "out_nodes n = [ot]"
    and "1 < count_list (target_shape n) (- 1)
         \<or> (count_list (target_shape n) (- 1) = 1
            \<and> \<not> prod_list (other_dims (shape t) (target_shape n)) dvd prod_list (shape t))"
  shows "tf_reshape_shape_infer n = Inl ShapeError \<and> tf_reshape_infer n = Inl ShapeError"
proof -
  have "resolve_shape (shape t) (target_shape n) = Inl ShapeError"
    using assms(3) resolve_shape_ambiguous resolve_shape_indivisible by blast
  then have "tf_reshape_shape_infer n = Inl ShapeError"
    using assms(1) by (simp add: tf_reshape_shape_infer_single)
  then show ?thesis
    using assms(1,2) by (simp add: infer_single)
qed

theorem tf_reshape_infer_shape_resolution_fails_witness:
  "tf_reshape_infer
     \<lparr>in_nodes = [\<lparr>shape = [2, 3, 4], val = (None :: int ndarray option)\<rparr>],
      out_nodes = [\<lparr>shape = [], val = None\<rparr>], target_shape = [- 1, - 1]\<rparr> = Inl ShapeError
   \<and> tf_reshape_infer
     \<lparr>in_nodes = [\<lparr>shape = [2, 3, 4], val = (None :: int ndarray option)\<rparr>],
      out_nodes = [\<lparr>shape = [], val = None\<rparr>], target_shape = [5, - 1]\<rparr> = Inl ShapeError"
  using tf_reshape_infer_shape_resolution_fails
    [of "\<lparr>in_nodes = [\<lparr>shape = [2, 3, 4], val = (None :: int ndarray option)\<rparr>],
          out_nodes = [\<lparr>shape = [], val = None\<rparr>], target_shape = [- 1, - 1]\<rparr>"
        "\<lparr>shape = [2, 3, 4], val = None\<rparr>" "\<lparr>shape = [], val = None\<rparr>"]
    tf_reshape_infer_shape_resolution_fails
    [of "\<lparr>in_nodes = [\<lparr>shape = [2, 3, 4], val = (None :: int ndarray option)\<rparr>],
          out_nodes = [\<lparr>shape = [], val = None\<rparr>], target_shape = [5, - 1]\<rparr>"
        "\<lparr>shape = [2, 3, 4], val = None\<rparr>" "\<lparr>shape = [], val = None\<rparr>"]
  by (simp add: other_dims_def)

text \<open>
  Claim C6: when the input value is known and the element count of the resolved output
  shape differs from the element count of the value, the reinterpretation by the value
  function fails, and that failure is the result of the infer callable.
\<close>

theorem tf_reshape_infer_count_mismatch:
  assumes "in_nodes n = [t]" and "out_nodes n = [ot]" and "val t = Some a"
    and "tf_reshape_shape_infer n = Inr s"
    and "prod_list s \<noteq> int (length (arr_data a))"
  shows "tf_reshape_value_infer (n\<lparr>out_nodes := [ot\<lparr>shape := s\<rparr>]\<rparr>) = Inl ValueError
       \<and> tf_reshape_infer n = Inl ValueError"
proof -
  have "list_all (\<lambda>d. 0 \<le> d) s"
    using assms(4) by (rule tf_reshape_shape_infer_nonneg)
  then have "tf_reshape_value_infer (n\<lparr>out_nodes := [ot\<lparr>shape := s\<rparr>]\<rparr>) = Inl ValueError"
    using assms(1,3,5)
    by (simp add: value_infer_nonneg [where t = t and ot = "ot\<lparr>shape := s\<rparr>"])
  moreover have "tf_reshape_infer n = Inl ValueError"
    using assms by (simp add: infer_known)
  ultimately show ?thesis by simp
qed

theorem tf_reshape_infer_count_mismatch_witness:
  "tf_reshape_infer
     \<lparr>in_nodes = [\<lparr>shape = [2, 3], val = Some \<lparr>arr_shape = [2, 3], arr_data = [10, 20, 30, 40, 50, 60 :: int]\<rparr>\<rparr>],
      out_nodes = [\<lparr>shape = [], val = None\<rparr>], target_shape = [4, 2]\<rparr> = Inl ValueError"
  using tf_reshape_infer_count_mismatch
    [of "\<lparr>in_nodes = [\<lparr>shape = [2, 3], val = Some \<lparr>arr_shape = [2, 3], arr_data = [10, 20, 30, 40, 50, 60 :: int]\<rparr>\<rparr>],
          out_nodes = [\<lparr>shape = [], val = None\<rparr>], target_shape = [4, 2]\<rparr>"
        "\<lparr>shape = [2, 3], val = Some \<lparr>arr_shape = [2, 3], arr_data = [10, 20, 30, 40, 50, 60 :: int]\<rparr>\<rparr>"
        "\<lparr>shape = [], val = None\<rparr>"
        "\<lparr>arr_shape = [2, 3], arr_data = [10, 20, 30, 40, 50, 60 :: int]\<rparr>" "[4, 2]"]
  by (simp add: tf_reshape_shape_infer_single resolve_shape_fully_specified)

text \<open>
  Claim C7: for an input of shape \<open>[2, 3, 4]\<close> and the target shape argument \<open>[0, -1]\<close> the infer
  callable resolves the output shape to \<open>[2, 12]\<close>; when the input value is a known array of
  that shape, the output value has shape \<open>[2, 12]\<close> and the same flattened elements.
\<close>

theorem tf_reshape_infer_scenario_copy_and_infer:
  assumes "in_nodes n = [t]" and "out_nodes n = [ot]"
    and "shape t = [2, 3, 4]" and "target_shape n = [0, - 1]"
  shows "tf_reshape_shape_infer n = Inr [2, 12]
       \<and> (val t = None \<longrightarrow>
            tf_reshape_infer n = Inr (n\<lparr>out_nodes := [ot\<lparr>shape := [2, 12], val := None\<rparr>]\<rparr>))
       \<and> (\<forall>a. val t = Some a \<and> wf_ndarray a \<and> arr_shape a = [2, 3, 4] \<longrightarrow>
            tf_reshape_infer n =
              Inr (n\<lparr>out_nodes :=
                     [ot\<lparr>shape := [2, 12],
                         val := Some \<lparr>arr_shape = [2, 12], arr_data = arr_data a\<rparr>\<rparr>]\<rparr>)
            \<and> flatten \<lparr>arr_shape = [2, 12], arr_data = arr_data a\<rparr> = flatten a)"
proof -
  have s: "tf_reshape_shape_infer n = Inr [2, 12]"
    using assms(1,3,4)
    by (simp add: tf_reshape_shape_infer_single resolve_shape_def check_resolved_def)
  have unknown: "tf_reshape_infer n = Inr (n\<lparr>out_nodes := [ot\<lparr>shape := [2, 12], val := None\<rparr>]\<rparr>)"
    if "val t = None"
    using that assms(1,2) s by (simp add: infer_unknown)
  have known: "tf_reshape_infer n =
              Inr (n\<lparr>out_nodes :=
                     [ot\<lparr>shape := [2, 12],
                         val := Some \<lparr>arr_shape = [2, 12], arr_data = arr_data a\<rparr>\<rparr>]\<rparr>)
            \<and> flatten \<lparr>arr_shape = [2, 12], arr_data = arr_data a\<rparr> = flatten a"
    if a: "val t = Some a" "wf_ndarray a" "arr_shape a = [2, 3, 4]" for a
  proof -
    let ?r = "\<lparr>arr_shape = [2, 12], arr_data = arr_data a\<rparr>"
    from a(2,3) have len: "int (length (arr_data a)) = 24"
      by (simp add: wf_ndarray_def)
    then have "tf_reshape_infer n = Inr (n\<lparr>out_nodes := [ot\<lparr>shape := [2, 12], val := Some ?r\<rparr>]\<rparr>)"
      using assms(1,2) a(1) s by (simp add: infer_known)
    moreover from len have "wf_ndarray ?r"
      by (simp add: wf_ndarray_def)
    then have "flatten ?r = flatten a"
      using a(2) by (simp add: flatten_wf)
    ultimately show ?thesis by simp
  qed
  from s unknown known show ?thesis by blast
qed

theorem tf_reshape_infer_scenario_copy_and_infer_witness:
  "tf_reshape_infer
     \<lparr>in_nodes = [\<lparr>shape = [2, 3, 4], val = Some \<lparr>arr_shape = [2, 3, 4], arr_data = [0..<24]\<rparr>\<rparr>],
      out_nodes = [\<lparr>shape = [], val = None\<rparr>], target_shape = [0, - 1]\<rparr>
     = Inr \<lparr>in_nodes = [\<lparr>shape = [2, 3, 4], val = Some \<lparr>arr_shape = [2, 3, 4], arr_data = [0..<24]\<rparr>\<rparr>],
            out_nodes = [\<lparr>shape = [2, 12], val = Some \<lparr>arr_shape = [2, 12], arr_data = [0..<24]\<rparr>\<rparr>],
            target_shape = [0, - 1]\<rparr>
   \<and> flatten \<lparr>arr_shape = [2, 12], arr_data = [0..<24]\<rparr>
     = flatten \<lparr>arr_shape = [2, 3, 4], arr_data = [0..<24]\<rparr>"
  using tf_reshape_infer_scenario_copy_and_infer
    [of "\<lparr>in_nodes = [\<lparr>shape = [2, 3, 4], val = Some \<lparr>arr_shape = [2, 3, 4], arr_data = [0..<24]\<rparr>\<rparr>],
          out_nodes = [\<lparr>shape = [], val = None\<rparr>], target_shape = [0, - 1]\<rparr>"
        "\<lparr>shape = [2, 3, 4], val = Some \<lparr>arr_shape = [2, 3, 4], arr_data = [0..<24]\<rparr>\<rparr>"
        "\<lparr>shape = [], val = None\<rparr>"]
  by (simp add: wf_ndarray_def)

text \<open>
  Claim C8: reshaping a known array to its own current shape through the value function
  returns a value equal to the array, with the same shape and the same elements.
\<close>

theorem tf_reshape_value_idempotent:
  assumes "in_nodes n = [t]" and "out_nodes n = [ot]"
    and "val t = Some a" and "wf_ndarray a" and "shape ot = arr_shape a"
  shows "tf_reshape_value_infer n = Inr (Some a) \<and> np_reshape a (arr_shape a) = Inr a"
  using assms by (simp add: value_infer_nonneg np_reshape_nonneg wf_ndarray_def)

theorem tf_reshape_value_idempotent_witness:
  "tf_reshape_value_infer
     \<lparr>in_nodes = [\<lparr>shape = [2, 3], val = Some \<lparr>arr_shape = [2, 3], arr_data = [10, 20, 30, 40, 50, 60 :: int]\<rparr>\<rparr>],
      out_nodes = [\<lparr>shape = [2, 3], val = None\<rparr>], target_shape = [2, 3]\<rparr>
     = Inr (Some \<lparr>arr_shape = [2, 3], arr_data = [10, 20, 30, 40, 50, 60]\<rparr>)"
  using tf_reshape_value_idempotent
    [of "\<lparr>in_nodes = [\<lparr>shape = [2, 3], val = Some \<lparr>arr_shape = [2, 3], arr_data = [10, 20, 30, 40, 50, 60 :: int]\<rparr>\<rparr>],
          out_nodes = [\<lparr>shape = [2, 3], val = None\<rparr>], target_shape = [2, 3]\<rparr>"
        "\<lparr>shape = [2, 3], val = Some \<lparr>arr_shape = [2, 3], arr_data = [10, 20, 30, 40, 50, 60 :: int]\<rparr>\<rparr>"
        "\<lparr>shape = [2, 3], val = None\<rparr>"
        "\<lparr>arr_shape = [2, 3], arr_data = [10, 20, 30, 40, 50, 60 :: int]\<rparr>"]
  by (simp add: wf_ndarray_def)

text \<open>
  Claim C9: the value function takes the target shape from the output slot of the node, not
  from the shape argument. With a known input value its result is the reshape to the shape
  found in that slot, whatever the shape argument is; it is an error when the slot holds a
  shape of another element count, and it succeeds once the resolved shape has been written
  to the slot, which is what the infer callable does before it computes the value.
\<close>

theorem tf_reshape_value_reads_output_slot:
  assumes "in_nodes n = [t]" and "out_nodes n = [ot]" and "val t = Some a"
  shows "tf_reshape_value_infer n =
           (case np_reshape a (shape ot) of Inl e \<Rightarrow> Inl e | Inr r \<Rightarrow> Inr (Some r))
       \<and> tf_reshape_value_infer (n\<lparr>target_shape := d\<rparr>) = tf_reshape_value_infer n
       \<and> (list_all (\<lambda>d. 0 \<le> d) (shape ot) \<and> prod_list (shape ot) \<noteq> int (length (arr_data a)) \<longrightarrow>
            tf_reshape_value_infer n = Inl ValueError)
       \<and> (tf_reshape_shape_infer n = Inr s \<and> prod_list s = int (length (arr_data a)) \<longrightarrow>
            tf_reshape_value_infer (n\<lparr>out_nodes := [ot\<lparr>shape := s\<rparr>]\<rparr>)
              = Inr (Some \<lparr>arr_shape = s, arr_data = arr_data a\<rparr>)
            \<and> tf_reshape_infer n =
                Inr (n\<lparr>out_nodes :=
                       [ot\<lparr>shape := s, val := Some \<lparr>arr_shape = s, arr_data = arr_data a\<rparr>\<rparr>]\<rparr>))"
proof -
  have read: "tf_reshape_value_infer n =
      (case np_reshape a (shape ot) of Inl e \<Rightarrow> Inl e | Inr r \<Rightarrow> Inr (Some r))"
    using assms by (simp add: value_infer_known)
  have arg: "tf_reshape_value_infer (n\<lparr>target_shape := d\<rparr>) = tf_reshape_value_infer n"
    using assms by (simp add: value_infer_known)
  have stale: "tf_reshape_value_infer n = Inl ValueError"
    if "list_all (\<lambda>d. 0 \<le> d) (shape ot)" "prod_list (shape ot) \<noteq> int (length (arr_data a))"
    using that assms by (simp add: value_infer_nonneg)
  have written: "tf_reshape_value_infer (n\<lparr>out_nodes := [ot\<lparr>shape := s\<rparr>]\<rparr>)
              = Inr (Some \<lparr>arr_shape = s, arr_data = arr_data a\<rparr>)
            \<and> tf_reshape_infer n =
                Inr (n\<lparr>out_nodes :=
                       [ot\<lparr>shape := s, val := Some \<lparr>arr_shape = s, arr_data = arr_data a\<rparr>\<rparr>]\<rparr>)"
    if s: "tf_reshape_shape_infer n = Inr s" "prod_list s = int (length (arr_data a))"
  proof -
    from s(1) have "list_all (\<lambda>d. 0 \<le> d) s"
      by (rule tf_reshape_shape_infer_nonneg)
    then have "tf_reshape_value_infer (n\<lparr>out_nodes := [ot\<lparr>shape := s\<rparr>]\<rparr>)
              = Inr (Some \<lparr>arr_shape = s, arr_data = arr_data a\<rparr>)"
      using assms(1,3) s(2)
      by (simp add: value_infer_nonneg [where t = t and ot = "ot\<lparr>shape := s\<rparr>"])
    moreover have "tf_reshape_infer n =
                Inr (n\<lparr>out_nodes :=
                       [ot\<lparr>shape := s, val := Some \<lparr>arr_shape = s, arr_data = arr_data a\<rparr>\<rparr>]\<rparr>)"
      using assms s by (simp add: infer_known)
    ultimately show ?thesis by simp
  qed
  from read arg stale written show ?thesis by blast
qed

theorem tf_reshape_value_reads_output_slot_witness:
  "tf_reshape_value_infer
     \<lparr>in_nodes = [\<lparr>shape = [2, 3], val = Some \<lparr>arr_shape = [2, 3], arr_data = [10, 20, 30, 40, 50, 60 :: int]\<rparr>\<rparr>],
      out_nodes = [\<lparr>shape = [7], val = None\<rparr>], target_shape = [3, 2]\<rparr> = Inl ValueError
   \<and> tf_reshape_value_infer
     \<lparr>in_nodes = [\<lparr>shape = [2, 3], val = Some \<lparr>arr_shape = [2, 3], arr_data = [10, 20, 30, 40, 50, 60 :: int]\<rparr>\<rparr>],
      out_nodes = [\<lparr>shape = [3, 2], val = None\<rparr>], target_shape = [3, 2]\<rparr>
     = Inr (Some \<lparr>arr_shape = [3, 2], arr_data = [10, 20, 30, 40, 50, 60]\<rparr>)
   \<and> tf_reshape_infer
     \<lparr>in_nodes = [\<lparr>shape = [2, 3], val = Some \<lparr>arr_shape = [2, 3], arr_data = [10, 20, 30, 40, 50, 60 :: int]\<rparr>\<rparr>],
      out_nodes = [\<lparr>shape = [7], val = None\<rparr>], target_shape = [3, 2]\<rparr>
     = Inr \<lparr>in_nodes = [\<lparr>shape = [2, 3], val = Some \<lparr>arr_shape = [2, 3], arr_data = [10, 20, 30, 40, 50, 60 :: int]\<rparr>\<rparr>],
            out_nodes = [\<lparr>shape = [3, 2], val = Some \<lparr>arr_shape = [3, 2], arr_data = [10, 20, 30, 40, 50, 60]\<rparr>\<rparr>],
            target_shape = [3, 2]\<rparr>"
  using tf_reshape_value_reads_output_slot
    [of "\<lparr>in_nodes = [\<lparr>shape = [2, 3], val = Some \<lparr>arr_shape = [2, 3], arr_data = [10, 20, 30, 40, 50, 60 :: int]\<rparr>\<rparr>],
          out_nodes = [\<lparr>shape = [7], val = None\<rparr>], target_shape = [3, 2]\<rparr>"
        "\<lparr>shape = [2, 3], val = Some \<lparr>arr_shape = [2, 3], arr_data = [10, 20, 30, 40, 50, 60 :: int]\<rparr>\<rparr>"
        "\<lparr>shape = [7], val = None\<rparr>"
        "\<lparr>arr_shape = [2, 3], arr_data = [10, 20, 30, 40, 50, 60 :: int]\<rparr>"
        "[3, 2]" "[3, 2]"]
  by (simp add: tf_reshape_shape_infer_single resolve_shape_fully_specified np_reshape_def)

text \<open>
  Claim C10: the value function tests the input value against \<open>None\<close> and nothing else: its
  result is the unknown marker exactly when the input value is unknown. So an input whose
  value is a known array with no elements is known: the value function reshapes it and
  returns a known empty array of the resolved shape, and the infer callable records that
  value, whereas for an unknown input value on the same node it returns \<open>None\<close> and the infer
  callable records no value. The two cases stay distinguishable.
\<close>

theorem tf_reshape_value_known_empty:
  assumes "in_nodes n = [t]" and "out_nodes n = [ot]"
  shows "(tf_reshape_value_infer n = Inr None \<longleftrightarrow> val t = None)
       \<and> (\<forall>sh. tf_reshape_value_infer (n\<lparr>out_nodes := [ot\<lparr>shape := sh\<rparr>]\<rparr>) = Inr None
                 \<longleftrightarrow> val t = None)
       \<and> (\<forall>a s. val t = Some a \<and> arr_data a = []
                 \<and> tf_reshape_shape_infer n = Inr s \<and> prod_list s = 0 \<longrightarrow>
            tf_reshape_value_infer (n\<lparr>out_nodes := [ot\<lparr>shape := s\<rparr>]\<rparr>)
              = Inr (Some \<lparr>arr_shape = s, arr_data = []\<rparr>)
            \<and> tf_reshape_value_infer (n\<lparr>out_nodes := [ot\<lparr>shape := s\<rparr>]\<rparr>) \<noteq> Inr None
            \<and> tf_reshape_infer n =
                Inr (n\<lparr>out_nodes :=
                       [ot\<lparr>shape := s, val := Some \<lparr>arr_shape = s, arr_data = []\<rparr>\<rparr>]\<rparr>))
       \<and> (\<forall>s. val t = None \<and> tf_reshape_shape_infer n = Inr s \<longrightarrow>
            tf_reshape_value_infer (n\<lparr>out_nodes := [ot\<lparr>shape := s\<rparr>]\<rparr>) = Inr None
            \<and> tf_reshape_infer n = Inr (n\<lparr>out_nodes := [ot\<lparr>shape := s, val := None\<rparr>]\<rparr>))"
proof -
  have test: "tf_reshape_value_infer m = Inr None \<longleftrightarrow> val t = None"
    if "in_nodes m = [t]" "out_nodes m = [ot']" for m :: "'a node" and ot'
  proof (cases "val t")
    case None
    with that show ?thesis by (simp add: value_infer_unknown)
  next
    case (Some a)
    with that show ?thesis
      by (simp add: value_infer_known split: sum.splits)
  qed
  have here: "tf_reshape_value_infer n = Inr None \<longleftrightarrow> val t = None"
    using assms by (rule test)
  have slot: "tf_reshape_value_infer (n\<lparr>out_nodes := [ot\<lparr>shape := sh\<rparr>]\<rparr>) = Inr None
                 \<longleftrightarrow> val t = None" for sh
    using assms(1) by (intro test [where ot' = "ot\<lparr>shape := sh\<rparr>"]) simp_all
  have empty: "tf_reshape_value_infer (n\<lparr>out_nodes := [ot\<lparr>shape := s\<rparr>]\<rparr>)
              = Inr (Some \<lparr>arr_shape = s, arr_data = []\<rparr>)
            \<and> tf_reshape_value_infer (n\<lparr>out_nodes := [ot\<lparr>shape := s\<rparr>]\<rparr>) \<noteq> Inr None
            \<and> tf_reshape_infer n =
                Inr (n\<lparr>out_nodes :=
                       [ot\<lparr>shape := s, val := Some \<lparr>arr_shape = s, arr_data = []\<rparr>\<rparr>]\<rparr>)"
    if a: "val t = Some a" "arr_data a = []" "tf_reshape_shape_infer n = Inr s" "prod_list s = 0"
    for a s
  proof -
    have "list_all (\<lambda>d. 0 \<le> d) s"
      using a(3) by (rule tf_reshape_shape_infer_nonneg)
    then have "tf_reshape_value_infer (n\<lparr>out_nodes := [ot\<lparr>shape := s\<rparr>]\<rparr>)
             = Inr (Some \<lparr>arr_shape = s, arr_data = []\<rparr>)"
      using assms(1) a(1,2,4)
      by (simp add: value_infer_nonneg [where t = t and ot = "ot\<lparr>shape := s\<rparr>"])
    moreover have "tf_reshape_infer n =
             Inr (n\<lparr>out_nodes := [ot\<lparr>shape := s, val := Some \<lparr>arr_shape = s, arr_data = []\<rparr>\<rparr>]\<rparr>)"
      using assms a by (simp add: infer_known)
    ultimately show ?thesis by simp
  qed
  have unknown: "tf_reshape_value_infer (n\<lparr>out_nodes := [ot\<lparr>shape := s\<rparr>]\<rparr>) = Inr None
            \<and> tf_reshape_infer n = Inr (n\<lparr>out_nodes := [ot\<lparr>shape := s, val := None\<rparr>]\<rparr>)"
    if u: "val t = None" "tf_reshape_shape_infer n = Inr s" for s
    using assms u slot [of s] by (simp add: infer_unknown)
  from here slot empty unknown show ?thesis by blast
qed

theorem tf_reshape_value_known_empty_witness:
  "tf_reshape_infer
     \<lparr>in_nodes = [\<lparr>shape = [0, 3], val = Some \<lparr>arr_shape = [0, 3], arr_data = ([] :: int list)\<rparr>\<rparr>],
      out_nodes = [\<lparr>shape = [], val = None\<rparr>], target_shape = [3, - 1]\<rparr>
     = Inr \<lparr>in_nodes = [\<lparr>shape = [0, 3], val = Some \<lparr>arr_shape = [0, 3], arr_data = []\<rparr>\<rparr>],
            out_nodes = [\<lparr>shape = [3, 0], val = Some \<lparr>arr_shape = [3, 0], arr_data = []\<rparr>\<rparr>],
            target_shape = [3, - 1]\<rparr>
   \<and> tf_reshape_value_infer
     \<lparr>in_nodes = [\<lparr>shape = [0, 3], val = Some \<lparr>arr_shape = [0, 3], arr_data = ([] :: int list)\<rparr>\<rparr>],
      out_nodes = [\<lparr>shape = [3, 0], val = None\<rparr>], target_shape = [3, - 1]\<rparr>
     = Inr (Some \<lparr>arr_shape = [3, 0], arr_data = []\<rparr>)
   \<and> tf_reshape_infer
     \<lparr>in_nodes = [\<lparr>shape = [0, 3], val = (None :: int ndarray option)\<rparr>],
      out_nodes = [\<lparr>shape = [], val = None\<rparr>], target_shape = [3, - 1]\<rparr>
     = Inr \<lparr>in_nodes = [\<lparr>shape = [0, 3], val = None\<rparr>],
            out_nodes = [\<lparr>shape = [3, 0], val = None\<rparr>], target_shape = [3, - 1]\<rparr>
   \<and> tf_reshape_value_infer
     \<lparr>in_nodes = [\<lparr>shape = [0, 3], val = (None :: int ndarray option)\<rparr>],
      out_nodes = [\<lparr>shape = [3, 0], val = None\<rparr>], target_shape = [3, - 1]\<rparr>
     = Inr None"
  using tf_reshape_value_known_empty
    [of "\<lparr>in_nodes = [\<lparr>shape = [0, 3], val = Some \<lparr>arr_shape = [0, 3], arr_data = ([] :: int list)\<rparr>\<rparr>],
          out_nodes = [\<lparr>shape = [], val = None\<rparr>], target_shape = [3, - 1]\<rparr>"
        "\<lparr>shape = [0, 3], val = Some \<lparr>arr_shape = [0, 3], arr_data = ([] :: int list)\<rparr>\<rparr>"
        "\<lparr>shape = [], val = None\<rparr>"]
    tf_reshape_value_known_empty
    [of "\<lparr>in_nodes = [\<lparr>shape = [0, 3], val = (None :: int ndarray option)\<rparr>],
          out_nodes = [\<lparr>shape = [], val = None\<rparr>], target_shape = [3, - 1]\<rparr>"
        "\<lparr>shape = [0, 3], val = None\<rparr>"
        "\<lparr>shape = [], val = None\<rparr>"]
  by (simp add: tf_reshape_shape_infer_single resolve_shape_def check_resolved_def)

end
